theory Spec2Isabelle
  imports Complex_Main
begin

section \<open>The BookStore data-access layer (app/crud.py, app/models.py, app/schemas.py)\<close>

text \<open>
  The five functions of \<^verbatim>\<open>app/crud.py\<close> are embedded as functions on an explicit
  world: the rows of table \<^verbatim>\<open>book\<close> in storage order, the wall clock that
  \<^verbatim>\<open>datetime.utcnow\<close> reads, and the engine's choice of a key once the largest one
  is taken. Every function returns the world it leaves behind. A fault raised by
  \<^verbatim>\<open>session.get\<close>, \<^verbatim>\<open>session.exec\<close>, \<^verbatim>\<open>session.commit\<close> or
  \<^verbatim>\<open>session.refresh\<close> is the \<open>Inl\<close> branch of the result.

  The engine is the one \<^verbatim>\<open>app/database.py\<close> configures by default, SQLite: its
  integers are signed 64-bit, and a Python integer outside that range cannot be bound
  to a statement (\<^verbatim>\<open>OverflowError\<close>), nor can a \<^verbatim>\<open>str\<close> that UTF-8 cannot
  encode (\<^verbatim>\<open>UnicodeEncodeError\<close>); a \<^verbatim>\<open>float\<close> that is not a number is stored
  as NULL. The parameters of a statement are bound in the order of the columns, before
  the engine runs it, and the first one refused decides the fault.

  What lies outside the model: the transport (HTTP, JSON), connectivity faults, the
  rounding of \<^verbatim>\<open>float\<close> arithmetic (a finite price is a \<open>real\<close>; no function here
  computes with prices) and the engine's limit on the size of a row (10^9 bytes).
\<close>

subsection \<open>Values\<close>

text \<open>\<^verbatim>\<open>datetime\<close>: microseconds since the epoch.\<close>

type_synonym datetime = int

text \<open>A Python \<^verbatim>\<open>float\<close>: a finite number, an infinity, or not a number.\<close>

datatype py_float = Num real | PosInf | NegInf | NaN

text \<open>
  A Python \<^verbatim>\<open>str\<close>: text that UTF-8 can encode, given by its bytes, or text with a
  lone surrogate, which it cannot encode (the number tells such texts apart).
\<close>

datatype py_str = Str string | Lone_surrogate nat

fun encodable :: "py_str \<Rightarrow> bool" where
  "encodable (Str s) = True"
| "encodable (Lone_surrogate n) = False"

text \<open>The integers that the engine can hold and that a statement can bind.\<close>

definition in_int64 :: "int \<Rightarrow> bool" where
  "in_int64 k \<longleftrightarrow> - (2 ^ 63) \<le> k \<and> k < 2 ^ 63"

subsection \<open>Schemas (app/schemas.py)\<close>

text \<open>\<^verbatim>\<open>class BookCreate(SQLModel)\<close>: a validated payload, every field present and typed.\<close>

record BookCreate =
  title :: py_str
  author :: py_str
  year :: int
  price :: py_float
  in_stock :: bool
  description :: "py_str option"

text \<open>
  A field of \<^verbatim>\<open>BookUpdate\<close> is declared \<^verbatim>\<open>Optional[...] = None\<close>. The payload
  remembers which fields the caller has set: \<^verbatim>\<open>dict(exclude_unset=True)\<close> drops a field
  that was never set (\<open>Unset\<close>) and keeps one that was set, be it to \<^verbatim>\<open>None\<close>
  (\<open>Null\<close>) or to a value (\<open>Value v\<close>).
\<close>

datatype 'a payload_field = Unset | Null | Value 'a

record BookUpdate =
  title :: "py_str payload_field"
  author :: "py_str payload_field"
  year :: "int payload_field"
  price :: "py_float payload_field"
  in_stock :: "bool payload_field"
  description :: "py_str payload_field"

subsection \<open>The entity (app/models.py)\<close>

text \<open>
  \<^verbatim>\<open>class Book(BookBase, table=True)\<close>: the fields of \<^verbatim>\<open>BookBase\<close> and the primary
  key \<^verbatim>\<open>id: Optional[int] = Field(default=None, primary_key=True)\<close>, which is
  \<^verbatim>\<open>None\<close> until the store has generated it.
\<close>

record Book =
  title :: py_str
  author :: py_str
  year :: int
  price :: py_float
  in_stock :: bool
  description :: "py_str option"
  created_at :: datetime
  updated_at :: datetime
  id_pk :: "int option"

text \<open>
  The attributes of a loaded \<^verbatim>\<open>Book\<close> object while \<^verbatim>\<open>update_book\<close> assigns to it.
  \<^verbatim>\<open>setattr\<close> on a table model does not validate, so an attribute annotated
  \<^verbatim>\<open>str\<close>, \<^verbatim>\<open>int\<close>, \<^verbatim>\<open>float\<close> or \<^verbatim>\<open>bool\<close> can hold \<^verbatim>\<open>None\<close> until the
  flush.
\<close>

record Book_instance =
  title :: "py_str option"
  author :: "py_str option"
  year :: "int option"
  price :: "py_float option"
  in_stock :: "bool option"
  description :: "py_str option"
  created_at :: datetime
  updated_at :: datetime
  id_pk :: "int option"

subsection \<open>The world: table, clock and key search\<close>

text \<open>
  \<open>wall_clock w n\<close> is what the \<open>n\<close>-th call of \<^verbatim>\<open>datetime.utcnow()\<close> returns and
  \<open>clock_reads w\<close> counts the calls made so far. Nothing is assumed of the readings:
  \<^verbatim>\<open>utcnow\<close> reads the wall clock, which may stand still or be set back.

  \<open>random_rowid w keys\<close> is the outcome of the engine's random search for a key in a
  table that holds \<open>keys\<close>, which it runs only when the largest key has no successor:
  the key it settles on, or \<open>None\<close> when it gives up.
\<close>

record world =
  book_table :: "Book list"
  wall_clock :: "nat \<Rightarrow> datetime"
  clock_reads :: nat
  random_rowid :: "int list \<Rightarrow> int option"

datatype fault =
  IntegrityError | InvalidRequestError | OverflowError | UnicodeEncodeError | OperationalError

definition utcnow :: "world \<Rightarrow> datetime \<times> world" where
  "utcnow w = (wall_clock w (clock_reads w), w\<lparr>clock_reads := Suc (clock_reads w)\<rparr>)"

subsection \<open>Session operations used by app/crud.py\<close>

text \<open>
  \<^verbatim>\<open>session.get(Book, book_id)\<close>: the row whose primary key is \<open>book_id\<close>, or
  \<^verbatim>\<open>None\<close>. The key is bound to the SELECT, which a key outside 64 bits refuses.
\<close>

definition session_get :: "world \<Rightarrow> int \<Rightarrow> fault + Book option" where
  "session_get w book_id =
     (if in_int64 book_id then Inr (find (\<lambda>r. Book.id_pk r = Some book_id) (book_table w))
      else Inl OverflowError)"

text \<open>
  \<^verbatim>\<open>Book.from_orm(book)\<close>: the payload's fields, and the two timestamps from their
  \<^verbatim>\<open>default_factory=datetime.utcnow\<close>, each field calling its own factory, in the
  order of declaration (models.py lines 16 and 17).
\<close>

definition from_orm :: "world \<Rightarrow> BookCreate \<Rightarrow> Book \<times> world" where
  "from_orm w book =
     (let (t_created, w1) = utcnow w;
          (t_updated, w2) = utcnow w1
      in (\<lparr>Book.title = BookCreate.title book,
           Book.author = BookCreate.author book,
           Book.year = BookCreate.year book,
           Book.price = BookCreate.price book,
           Book.in_stock = BookCreate.in_stock book,
           Book.description = BookCreate.description book,
           Book.created_at = t_created,
           Book.updated_at = t_updated,
           Book.id_pk = None\<rparr>, w2))"

text \<open>
  The primary key that the store generates for a row inserted without one: an
  \<^verbatim>\<open>INTEGER PRIMARY KEY\<close> column of SQLite gets one more than the largest key in the
  table, and 1 in an empty table. When that successor does not exist (the largest key
  is the largest 64-bit integer) the engine searches at random for a positive key that
  no row has, and the INSERT fails when the search finds none.
\<close>

definition primary_keys :: "Book list \<Rightarrow> int list" where
  "primary_keys rows = concat (map (\<lambda>r. case Book.id_pk r of None \<Rightarrow> [] | Some k \<Rightarrow> [k]) rows)"

definition next_rowid :: "Book list \<Rightarrow> int" where
  "next_rowid rows = (case primary_keys rows of [] \<Rightarrow> 1 | k # ks \<Rightarrow> fold max ks k + 1)"

definition generate_rowid :: "world \<Rightarrow> fault + int" where
  "generate_rowid w =
     (let keys = primary_keys (book_table w); k = next_rowid (book_table w)
      in if in_int64 k then Inr k
         else (case random_rowid w keys of
                 None \<Rightarrow> Inl OperationalError
               | Some j \<Rightarrow>
                   if 0 < j \<and> in_int64 j \<and> j \<notin> set keys then Inr j else Inl OperationalError))"

text \<open>The table is kept, and scanned, in the order of its keys: a new row goes before the first row of a larger key.\<close>

definition key_below :: "int \<Rightarrow> Book \<Rightarrow> bool" where
  "key_below k r = (case Book.id_pk r of None \<Rightarrow> True | Some j \<Rightarrow> j < k)"

definition place_row :: "Book list \<Rightarrow> int \<Rightarrow> Book \<Rightarrow> Book list" where
  "place_row rows k r = takeWhile (key_below k) rows @ r # dropWhile (key_below k) rows"

text \<open>
  Binding the parameters of the INSERT, in the order of the columns: \<^verbatim>\<open>title\<close>,
  \<^verbatim>\<open>author\<close>, \<^verbatim>\<open>year\<close>, \<^verbatim>\<open>price\<close>, \<^verbatim>\<open>in_stock\<close>, \<^verbatim>\<open>description\<close> and
  the two timestamps. The result is the fault of the first parameter refused.
\<close>

definition bind_insert :: "Book \<Rightarrow> fault option" where
  "bind_insert db_book =
     (if \<not> encodable (Book.title db_book) \<or> \<not> encodable (Book.author db_book)
      then Some UnicodeEncodeError
      else if \<not> in_int64 (Book.year db_book) then Some OverflowError
      else (case Book.description db_book of
              None \<Rightarrow> None
            | Some d \<Rightarrow> if encodable d then None else Some UnicodeEncodeError))"

text \<open>
  \<^verbatim>\<open>session.add(db_book); session.commit()\<close> for the object that \<^verbatim>\<open>from_orm\<close> has
  built, whose \<^verbatim>\<open>id\<close> is \<^verbatim>\<open>None\<close>: one INSERT. Binding comes first; then the
  engine generates the key; then it checks the NOT NULL columns, where a price that is
  not a number has become NULL.
\<close>

definition insert_row :: "world \<Rightarrow> Book \<Rightarrow> fault + int \<times> world" where
  "insert_row w db_book =
     (case bind_insert db_book of
        Some e \<Rightarrow> Inl e
      | None \<Rightarrow>
          (case generate_rowid w of
             Inl e \<Rightarrow> Inl e
           | Inr k \<Rightarrow>
               if Book.price db_book = NaN then Inl IntegrityError
               else Inr (k, w\<lparr>book_table :=
                               place_row (book_table w) k (db_book\<lparr>Book.id_pk := Some k\<rparr>)\<rparr>)))"

text \<open>\<^verbatim>\<open>session.refresh(obj)\<close>: reads the row of the object's key again, and raises when it is gone.\<close>

definition refresh :: "world \<Rightarrow> int \<Rightarrow> fault + Book" where
  "refresh w k =
     (case session_get w k of
        Inl e \<Rightarrow> Inl e
      | Inr None \<Rightarrow> Inl InvalidRequestError
      | Inr (Some r) \<Rightarrow> Inr r)"

subsection \<open>create_book, get_book, get_books (app/crud.py lines 9 to 26)\<close>

text \<open>A commit that fails leaves the table as it was; the clock has been read by then.\<close>

definition create_book :: "world \<Rightarrow> BookCreate \<Rightarrow> (fault + Book) \<times> world" where
  "create_book w book =
     (let (db_book, w1) = from_orm w book
      in case insert_row w1 db_book of
           Inl e \<Rightarrow> (Inl e, w1)
         | Inr (k, w2) \<Rightarrow> (refresh w2 k, w2))"

definition get_book :: "world \<Rightarrow> int \<Rightarrow> fault + Book option" where
  "get_book w book_id = session_get w book_id"

text \<open>
  \<^verbatim>\<open>select(Book).offset(offset).limit(limit)\<close>: both numbers are Python integers and
  are bound to the SELECT as they are (the defaults \<^verbatim>\<open>offset=0\<close>, \<^verbatim>\<open>limit=10\<close> are
  the caller's to pass here), which refuses a number outside 64 bits. SQLite reads a
  negative OFFSET as 0 and a negative LIMIT as no limit.
\<close>

definition get_books :: "world \<Rightarrow> int \<Rightarrow> int \<Rightarrow> fault + Book list" where
  "get_books w offset limit =
     (if \<not> in_int64 offset \<or> \<not> in_int64 limit then Inl OverflowError
      else (let rest = drop (nat offset) (book_table w)
            in Inr (if limit < 0 then rest else take (nat limit) rest)))"

subsection \<open>update_book (app/crud.py lines 29 to 42)\<close>

definition load_instance :: "Book \<Rightarrow> Book_instance" where
  "load_instance r =
     \<lparr>Book_instance.title = Some (Book.title r),
      Book_instance.author = Some (Book.author r),
      Book_instance.year = Some (Book.year r),
      Book_instance.price = Some (Book.price r),
      Book_instance.in_stock = Some (Book.in_stock r),
      Book_instance.description = Book.description r,
      Book_instance.created_at = Book.created_at r,
      Book_instance.updated_at = Book.updated_at r,
      Book_instance.id_pk = Book.id_pk r\<rparr>"

text \<open>One key of the loop: an unset field is not in the dictionary, a set one is assigned.\<close>

fun setattr :: "'a option \<Rightarrow> 'a payload_field \<Rightarrow> 'a option" where
  "setattr current Unset = current"
| "setattr current Null = None"
| "setattr current (Value v) = Some v"

text \<open>\<^verbatim>\<open>for key, value in book_data.dict(exclude_unset=True).items(): setattr(db_book, key, value)\<close>\<close>

definition setattr_loop :: "Book_instance \<Rightarrow> BookUpdate \<Rightarrow> Book_instance" where
  "setattr_loop db_book book_data =
     db_book\<lparr>Book_instance.title := setattr (Book_instance.title db_book) (BookUpdate.title book_data),
             Book_instance.author := setattr (Book_instance.author db_book) (BookUpdate.author book_data),
             Book_instance.year := setattr (Book_instance.year db_book) (BookUpdate.year book_data),
             Book_instance.price := setattr (Book_instance.price db_book) (BookUpdate.price book_data),
             Book_instance.in_stock := setattr (Book_instance.in_stock db_book) (BookUpdate.in_stock book_data),
             Book_instance.description :=
               setattr (Book_instance.description db_book) (BookUpdate.description book_data)\<rparr>"

text \<open>\<^verbatim>\<open>Book.update_timestamp\<close> (models.py lines 25 and 26).\<close>

definition update_timestamp :: "Book_instance \<Rightarrow> world \<Rightarrow> Book_instance \<times> world" where
  "update_timestamp self w =
     (let (t, w1) = utcnow w in (self\<lparr>Book_instance.updated_at := t\<rparr>, w1))"

text \<open>
  The flush writes the attributes whose value differs from the loaded row
  \<open>loaded\<close>, and binds them first, in the order of the columns: a new text that
  cannot be encoded and a new \<^verbatim>\<open>year\<close> outside 64 bits are refused. \<^verbatim>\<open>None\<close> is
  bound as NULL.
\<close>

definition new_text_refused :: "py_str option \<Rightarrow> py_str option \<Rightarrow> bool" where
  "new_text_refused old new =
     (case new of None \<Rightarrow> False | Some t \<Rightarrow> Some t \<noteq> old \<and> \<not> encodable t)"

definition new_year_refused :: "int \<Rightarrow> int option \<Rightarrow> bool" where
  "new_year_refused old new =
     (case new of None \<Rightarrow> False | Some y \<Rightarrow> y \<noteq> old \<and> \<not> in_int64 y)"

definition bind_update :: "Book \<Rightarrow> Book_instance \<Rightarrow> fault option" where
  "bind_update loaded obj =
     (if new_text_refused (Some (Book.title loaded)) (Book_instance.title obj)
         \<or> new_text_refused (Some (Book.author loaded)) (Book_instance.author obj)
      then Some UnicodeEncodeError
      else if new_year_refused (Book.year loaded) (Book_instance.year obj) then Some OverflowError
      else if new_text_refused (Book.description loaded) (Book_instance.description obj)
      then Some UnicodeEncodeError
      else None)"

text \<open>
  The row that the flush leaves. The columns of \<^verbatim>\<open>title\<close>, \<^verbatim>\<open>author\<close>,
  \<^verbatim>\<open>year\<close>, \<^verbatim>\<open>price\<close> and \<^verbatim>\<open>in_stock\<close> are NOT NULL (their annotations in
  \<^verbatim>\<open>BookBase\<close> do not admit \<^verbatim>\<open>None\<close>, and a table model makes such a column
  non-nullable), so the engine refuses \<^verbatim>\<open>None\<close> in any of them, and a new price
  that is not a number, which it would store as NULL;
  \<^verbatim>\<open>description: Optional[str]\<close> is nullable.
\<close>

definition flush_row :: "Book \<Rightarrow> Book_instance \<Rightarrow> fault + Book" where
  "flush_row loaded obj =
     (case (Book_instance.title obj, Book_instance.author obj, Book_instance.year obj,
            Book_instance.price obj, Book_instance.in_stock obj) of
        (Some t, Some a, Some y, Some p, Some s) \<Rightarrow>
          if p = NaN \<and> Book.price loaded \<noteq> NaN then Inl IntegrityError
          else Inr \<lparr>Book.title = t, Book.author = a, Book.year = y, Book.price = p,
                    Book.in_stock = s,
                    Book.description = Book_instance.description obj,
                    Book.created_at = Book_instance.created_at obj,
                    Book.updated_at = Book_instance.updated_at obj,
                    Book.id_pk = Book_instance.id_pk obj\<rparr>
      | _ \<Rightarrow> Inl IntegrityError)"

text \<open>
  \<^verbatim>\<open>session.add(db_book); session.commit()\<close> for a loaded object: one UPDATE of the
  rows with the object's key. A refused UPDATE is rolled back and leaves the table as
  it was.
\<close>

definition commit_update :: "world \<Rightarrow> int \<Rightarrow> Book \<Rightarrow> Book_instance \<Rightarrow> fault + world" where
  "commit_update w book_id loaded obj =
     (case bind_update loaded obj of
        Some e \<Rightarrow> Inl e
      | None \<Rightarrow>
          (case flush_row loaded obj of
             Inl e \<Rightarrow> Inl e
           | Inr row \<Rightarrow>
               Inr (w\<lparr>book_table :=
                       map (\<lambda>r. if Book.id_pk r = Some book_id then row else r) (book_table w)\<rparr>)))"

definition update_book :: "world \<Rightarrow> int \<Rightarrow> BookUpdate \<Rightarrow> (fault + Book option) \<times> world" where
  "update_book w book_id book_data =
     (case session_get w book_id of
        Inl e \<Rightarrow> (Inl e, w)
      | Inr None \<Rightarrow> (Inr None, w)
      | Inr (Some row) \<Rightarrow>
          (let db_book = setattr_loop (load_instance row) book_data;
               (db_book, w1) = update_timestamp db_book w
           in case commit_update w1 book_id row db_book of
                Inl e \<Rightarrow> (Inl e, w1)
              | Inr w2 \<Rightarrow>
                  (case refresh w2 book_id of
                     Inl e \<Rightarrow> (Inl e, w2)
                   | Inr r \<Rightarrow> (Inr (Some r), w2))))"

text \<open>
  The two ways a commit of \<open>update_book\<close> is refused, read off the payload \<open>u\<close> and
  the loaded row \<open>r\<close>: a new text or a new year that cannot be bound, and NULL in a
  NOT NULL column.
\<close>

abbreviation unbindable :: "Book \<Rightarrow> BookUpdate \<Rightarrow> bool" where
  "unbindable r u \<equiv>
     (\<exists>t. BookUpdate.title u = Value t \<and> t \<noteq> Book.title r \<and> \<not> encodable t)
     \<or> (\<exists>a. BookUpdate.author u = Value a \<and> a \<noteq> Book.author r \<and> \<not> encodable a)
     \<or> (\<exists>y. BookUpdate.year u = Value y \<and> y \<noteq> Book.year r \<and> \<not> in_int64 y)
     \<or> (\<exists>d. BookUpdate.description u = Value d \<and> Some d \<noteq> Book.description r
            \<and> \<not> encodable d)"

abbreviation null_in_required :: "Book \<Rightarrow> BookUpdate \<Rightarrow> bool" where
  "null_in_required r u \<equiv>
     BookUpdate.title u = Null \<or> BookUpdate.author u = Null \<or> BookUpdate.year u = Null
     \<or> BookUpdate.price u = Null \<or> BookUpdate.in_stock u = Null
     \<or> (BookUpdate.price u = Value NaN \<and> Book.price r \<noteq> NaN)"

subsection \<open>delete_book (app/crud.py lines 45 to 53)\<close>

definition delete_book :: "world \<Rightarrow> int \<Rightarrow> (fault + bool) \<times> world" where
  "delete_book w book_id =
     (case session_get w book_id of
        Inl e \<Rightarrow> (Inl e, w)
      | Inr None \<Rightarrow> (Inr False, w)
      | Inr (Some db_book) \<Rightarrow>
          (Inr True,
           w\<lparr>book_table := filter (\<lambda>r. Book.id_pk r \<noteq> Book.id_pk db_book) (book_table w)\<rparr>))"

subsection \<open>Sequences of calls\<close>

text \<open>
  A history of the store is a list of calls of the three writing functions, each on the
  world that the one before has left. A call that ends in a fault leaves its world to
  the next call as any other does.
\<close>

datatype operation = Create BookCreate | Update int BookUpdate | Delete int

fun step :: "world \<Rightarrow> operation \<Rightarrow> world" where
  "step w (Create book) = snd (create_book w book)"
| "step w (Update book_id book_data) = snd (update_book w book_id book_data)"
| "step w (Delete book_id) = snd (delete_book w book_id)"

definition run :: "world \<Rightarrow> operation list \<Rightarrow> world" where
  "run w ops = foldl step w ops"

subsection \<open>Concrete inputs\<close>

text \<open>A key search that always gives up, and one that always settles on 5.\<close>

definition gives_up :: "int list \<Rightarrow> int option" where
  "gives_up keys = None"

definition settles_on_5 :: "int list \<Rightarrow> int option" where
  "settles_on_5 keys = Some 5"

text \<open>An empty table under a given clock, before any reading.\<close>

definition empty_store :: "(nat \<Rightarrow> datetime) \<Rightarrow> world" where
  "empty_store clock =
     \<lparr>book_table = [], wall_clock = clock, clock_reads = 0, random_rowid = gives_up\<rparr>"

text \<open>Three clocks: one microsecond per reading, standing still, and set back after the first reading.\<close>

definition ticking :: "nat \<Rightarrow> datetime" where
  "ticking n = int n"

definition standing_still :: "nat \<Rightarrow> datetime" where
  "standing_still n = 7"

definition set_back :: "nat \<Rightarrow> datetime" where
  "set_back n = (if n = 0 then 5 else 3)"

text \<open>\<^verbatim>\<open>BookCreate(title="Dune", author="Herbert", year=1965, price=12.5)\<close>\<close>

definition dune :: BookCreate where
  "dune = \<lparr>BookCreate.title = Str ''Dune'', BookCreate.author = Str ''Herbert'',
           BookCreate.year = 1965,
           BookCreate.price = Num (25 / 2), BookCreate.in_stock = True,
           BookCreate.description = None\<rparr>"

text \<open>The row of that payload with primary key \<open>k\<close> and the two timestamps given.\<close>

definition dune_row :: "int \<Rightarrow> datetime \<Rightarrow> datetime \<Rightarrow> Book" where
  "dune_row k t_created t_updated =
     \<lparr>Book.title = Str ''Dune'', Book.author = Str ''Herbert'', Book.year = 1965,
      Book.price = Num (25 / 2),
      Book.in_stock = True, Book.description = None,
      Book.created_at = t_created, Book.updated_at = t_updated, Book.id_pk = Some k\<rparr>"

text \<open>\<^verbatim>\<open>BookUpdate()\<close>, and \<^verbatim>\<open>BookUpdate(price=...)\<close>, \<^verbatim>\<open>BookUpdate(title=...)\<close>, \<^verbatim>\<open>BookUpdate(description=...)\<close>, \<^verbatim>\<open>BookUpdate(year=...)\<close>.\<close>

definition empty_payload :: BookUpdate where
  "empty_payload = \<lparr>BookUpdate.title = Unset, BookUpdate.author = Unset, BookUpdate.year = Unset,
                     BookUpdate.price = Unset, BookUpdate.in_stock = Unset,
                     BookUpdate.description = Unset\<rparr>"

definition price_only :: "py_float payload_field \<Rightarrow> BookUpdate" where
  "price_only p = empty_payload\<lparr>BookUpdate.price := p\<rparr>"

definition title_only :: "py_str payload_field \<Rightarrow> BookUpdate" where
  "title_only t = empty_payload\<lparr>BookUpdate.title := t\<rparr>"

definition description_only :: "py_str payload_field \<Rightarrow> BookUpdate" where
  "description_only d = empty_payload\<lparr>BookUpdate.description := d\<rparr>"

definition year_only :: "int payload_field \<Rightarrow> BookUpdate" where
  "year_only y = empty_payload\<lparr>BookUpdate.year := y\<rparr>"

text \<open>A second row, with a description.\<close>

definition messiah_row :: Book where
  "messiah_row =
     \<lparr>Book.title = Str ''Dune Messiah'', Book.author = Str ''Herbert'', Book.year = 1969,
      Book.price = Num 10, Book.in_stock = False, Book.description = Some (Str ''Sequel''),
      Book.created_at = 2, Book.updated_at = 3, Book.id_pk = Some 2\<rparr>"

text \<open>A table of two rows, keys 1 and 2, under the ticking clock after four readings.\<close>

definition two_books :: world where
  "two_books = \<lparr>book_table = [dune_row 1 0 1, messiah_row], wall_clock = ticking, clock_reads = 4,
                 random_rowid = gives_up\<rparr>"

text \<open>
  What \<open>create_book\<close> leaves of an empty store under the clock that stands still: one
  row, both timestamps 7, two readings made.
\<close>

definition still_store :: world where
  "still_store = \<lparr>book_table = [dune_row 1 7 7], wall_clock = standing_still, clock_reads = 2,
                   random_rowid = gives_up\<rparr>"

text \<open>A table whose largest key is the largest 64-bit integer, and whose key search settles on 5.\<close>

definition last_key_taken :: world where
  "last_key_taken = \<lparr>book_table = [dune_row 1 0 1, dune_row (2 ^ 63 - 1) 2 3], wall_clock = ticking,
                      clock_reads = 4, random_rowid = settles_on_5\<rparr>"

section \<open>Keys and lookups\<close>

lemma primary_keys_mem:
  "k \<in> set (primary_keys rows) \<longleftrightarrow> (\<exists>r \<in> set rows. Book.id_pk r = Some k)"
  by (induction rows) (auto simp: primary_keys_def split: option.splits)


lemma next_rowid_above:
  assumes "k \<in> set (primary_keys rows)"
  shows "k < next_rowid rows"
proof -
  from assms obtain x xs where e: "primary_keys rows = x # xs"
    by (cases "primary_keys rows") auto
  have "fold max xs x = Max (set (x # xs))"
    by (rule Max.set_eq_fold [symmetric])
  moreover have "k \<le> Max (set (x # xs))"
    using assms e by (intro Max_ge) auto
  ultimately show ?thesis
    by (simp add: next_rowid_def e)
qed

lemma next_rowid_fresh: "next_rowid rows \<notin> set (primary_keys rows)"
  using next_rowid_above [of "next_rowid rows" rows] by auto


lemma generate_rowid_unused:
  assumes "generate_rowid w = Inr k"
  shows "in_int64 k \<and> k \<notin> set (primary_keys (book_table w))"
proof (cases "in_int64 (next_rowid (book_table w))")
  case True
  with assms have "k = next_rowid (book_table w)"
    by (simp add: generate_rowid_def Let_def)
  with True show ?thesis
    by (simp add: next_rowid_fresh)
next
  case False
  with assms show ?thesis
    by (auto simp: generate_rowid_def Let_def split: option.splits if_splits)
qed




lemma find_only:
  "(\<And>x. x \<in> set pre \<Longrightarrow> \<not> P x) \<Longrightarrow> P r \<Longrightarrow> find P (pre @ r # post) = Some r"
  by (induction pre) auto

lemma find_placed:
  assumes "k \<notin> set (primary_keys rows)" and "Book.id_pk r = Some k"
  shows "find (\<lambda>x. Book.id_pk x = Some k) (place_row rows k r) = Some r"
proof -
  have "\<not> Book.id_pk x = Some k" if "x \<in> set (takeWhile (key_below k) rows)" for x
    using that assms(1) by (auto simp: primary_keys_mem dest: set_takeWhileD)
  with assms(2) show ?thesis
    unfolding place_row_def by (intro find_only) auto
qed

lemma session_get_absent:
  "in_int64 k \<Longrightarrow> Some k \<notin> set (map Book.id_pk (book_table w)) \<Longrightarrow> session_get w k = Inr None"
  by (force simp: session_get_def find_None_iff)

lemma session_get_found:
  "session_get w k = Inr (Some r) \<Longrightarrow> in_int64 k \<and> Book.id_pk r = Some k \<and> r \<in> set (book_table w)"
  by (auto simp: session_get_def find_Some_iff split: if_splits)

lemma find_after_rewrite:
  "find P rows = Some r \<Longrightarrow> P row \<Longrightarrow> find P (map (\<lambda>x. if P x then row else x) rows) = Some row"
  by (induction rows) (auto split: if_splits)

section \<open>create_book, branch by branch\<close>

lemma generate_rowid_after_from_orm:
  "generate_rowid (snd (from_orm w book)) = generate_rowid w"
  by (simp add: from_orm_def utcnow_def generate_rowid_def Let_def)


lemma create_book_not_bound:
  "bind_insert (fst (from_orm w book)) = Some e \<Longrightarrow>
   create_book w book = (Inl e, w\<lparr>clock_reads := Suc (Suc (clock_reads w))\<rparr>)"
  by (simp add: create_book_def from_orm_def utcnow_def insert_row_def Let_def)

lemma create_book_no_key:
  "bind_insert (fst (from_orm w book)) = None \<Longrightarrow> generate_rowid w = Inl e \<Longrightarrow>
   create_book w book = (Inl e, w\<lparr>clock_reads := Suc (Suc (clock_reads w))\<rparr>)"
  using generate_rowid_after_from_orm [of w book]
  by (simp add: create_book_def from_orm_def utcnow_def insert_row_def Let_def)

lemma create_book_not_a_number:
  "bind_insert (fst (from_orm w book)) = None \<Longrightarrow> generate_rowid w = Inr k \<Longrightarrow>
   BookCreate.price book = NaN \<Longrightarrow>
   create_book w book = (Inl IntegrityError, w\<lparr>clock_reads := Suc (Suc (clock_reads w))\<rparr>)"
  using generate_rowid_after_from_orm [of w book]
  by (simp add: create_book_def from_orm_def utcnow_def insert_row_def Let_def)

lemma create_book_inserted:
  assumes "bind_insert (fst (from_orm w book)) = None" and "generate_rowid w = Inr k"
    and "BookCreate.price book \<noteq> NaN"
  shows "create_book w book =
     (let r = (fst (from_orm w book))\<lparr>Book.id_pk := Some k\<rparr>
      in (Inr r, w\<lparr>book_table := place_row (book_table w) k r,
                   clock_reads := Suc (Suc (clock_reads w))\<rparr>))"
proof -
  from generate_rowid_unused [OF assms(2)]
  have k: "in_int64 k" "k \<notin> set (primary_keys (book_table w))"
    by simp_all
  have "find (\<lambda>x. Book.id_pk x = Some k)
      (place_row (book_table w) k ((fst (from_orm w book))\<lparr>Book.id_pk := Some k\<rparr>)) =
      Some ((fst (from_orm w book))\<lparr>Book.id_pk := Some k\<rparr>)"
    by (rule find_placed [OF k(2)]) simp
  then show ?thesis
    using assms k(1) generate_rowid_after_from_orm [of w book]
    by (simp add: create_book_def from_orm_def utcnow_def insert_row_def refresh_def
          session_get_def Let_def)
qed

lemma create_book_returns:
  assumes "create_book w book = (Inr r, w')"
  shows "\<exists>k. generate_rowid w = Inr k
     \<and> r = (fst (from_orm w book))\<lparr>Book.id_pk := Some k\<rparr>
     \<and> w' = w\<lparr>book_table := place_row (book_table w) k r,
              clock_reads := Suc (Suc (clock_reads w))\<rparr>"
proof (cases "bind_insert (fst (from_orm w book))")
  case (Some e)
  with assms show ?thesis by (simp add: create_book_not_bound)
next
  case None
  show ?thesis
  proof (cases "generate_rowid w")
    case (Inl e)
    with assms None show ?thesis by (simp add: create_book_no_key)
  next
    case (Inr k)
    show ?thesis
    proof (cases "BookCreate.price book = NaN")
      case True
      with assms None Inr show ?thesis
        by (simp add: create_book_not_a_number)
    next
      case False
      from create_book_inserted [OF None Inr False] assms Inr show ?thesis
        by (auto simp: Let_def)
    qed
  qed
qed

text \<open>The definitions that evaluate a call on a concrete world.\<close>

lemmas eval_defs =
  run_def create_book_def from_orm_def bind_insert_def insert_row_def generate_rowid_def
  place_row_def
  key_below_def refresh_def utcnow_def session_get_def get_book_def get_books_def
  update_book_def setattr_loop_def load_instance_def update_timestamp_def new_text_refused_def
  new_year_refused_def bind_update_def
  flush_row_def commit_update_def delete_book_def next_rowid_def primary_keys_def in_int64_def
  empty_store_def ticking_def standing_still_def set_back_def gives_up_def settles_on_5_def
  dune_def dune_row_def messiah_row_def two_books_def still_store_def last_key_taken_def
  price_only_def title_only_def description_only_def year_only_def empty_payload_def Let_def

section \<open>Creating a record and reading it back\<close>




text \<open>
  Claim C5. For every valid Create payload and every world, when \<open>create_book\<close>
  returns a record, the record has an identifier \<open>k\<close>, and \<open>get_book\<close> on \<open>k\<close>, in
  the world that \<open>create_book\<close> has left, returns a record equal to it.
\<close>

theorem create_then_get_roundtrip:
  assumes "create_book w book = (Inr r, w')"
  shows "\<exists>k. Book.id_pk r = Some k \<and> get_book w' k = Inr (Some r)"
proof -
  from create_book_returns [OF assms]
  obtain k where g: "generate_rowid w = Inr k"
    and r: "r = (fst (from_orm w book))\<lparr>Book.id_pk := Some k\<rparr>"
    and w': "w' = w\<lparr>book_table := place_row (book_table w) k r,
              clock_reads := Suc (Suc (clock_reads w))\<rparr>"
    by blast
  from generate_rowid_unused [OF g]
  have k: "in_int64 k" "k \<notin> set (primary_keys (book_table w))"
    by simp_all
  from r have "Book.id_pk r = Some k"
    by simp
  moreover from this have "find (\<lambda>x. Book.id_pk x = Some k) (place_row (book_table w) k r) = Some r"
    by (rule find_placed [OF k(2)])
  then have "get_book w' k = Inr (Some r)"
    using k(1) by (simp add: get_book_def session_get_def w')
  ultimately show ?thesis
    by blast
qed

text \<open>
  Claim C5 at a concrete input: the Dune payload in a table whose largest key is taken,
  where the engine settles on key 5 and the new row is not the last of the table.
\<close>

theorem create_then_get_roundtrip_witness:
  "create_book last_key_taken dune = (Inr (dune_row 5 4 5), snd (create_book last_key_taken dune))
   \<and> Book.id_pk (dune_row 5 4 5) = Some 5
   \<and> get_book (snd (create_book last_key_taken dune)) 5 = Inr (Some (dune_row 5 4 5))"
proof -
  have h: "create_book last_key_taken dune =
      (Inr (dune_row 5 4 5), snd (create_book last_key_taken dune))"
    by (simp add: eval_defs)
  have i: "Book.id_pk (dune_row 5 4 5) = Some 5"
    by (simp add: dune_row_def)
  from create_then_get_roundtrip [OF h] h i show ?thesis
    by simp
qed

section \<open>Missing rows and deleted rows\<close>




text \<open>
  Claim C10. For every identifier that no row of the table has, \<open>update_book\<close> and
  \<open>delete_book\<close> leave the whole world as it was: the table is not written and the
  clock is not read.
\<close>

theorem not_found_leaves_state:
  assumes "Some book_id \<notin> set (map Book.id_pk (book_table w))"
  shows "snd (update_book w book_id book_data) = w \<and> snd (delete_book w book_id) = w"
proof (cases "in_int64 book_id")
  case True
  from session_get_absent [OF True assms] show ?thesis
    by (simp add: update_book_def delete_book_def)
next
  case False
  then show ?thesis
    by (simp add: update_book_def delete_book_def session_get_def)
qed

text \<open>
  Claim C10 at a concrete input: key 3 in a table with keys 1 and 2, with a payload that
  would be refused on an existing row.
\<close>

theorem not_found_leaves_state_witness:
  "Some 3 \<notin> set (map Book.id_pk (book_table two_books))
   \<and> snd (update_book two_books 3 (title_only Null)) = two_books
   \<and> snd (delete_book two_books 3) = two_books"
proof -
  have h: "Some 3 \<notin> set (map Book.id_pk (book_table two_books))"
    by (simp add: two_books_def dune_row_def messiah_row_def)
  from not_found_leaves_state [OF h, of "title_only Null"] h show ?thesis
    by simp
qed

text \<open>
  Claim C6. For every identifier, if \<open>delete_book\<close> returns \<^verbatim>\<open>True\<close> then
  \<open>get_book\<close> on the same identifier, in the world that \<open>delete_book\<close> has left,
  returns \<^verbatim>\<open>None\<close>.
\<close>

theorem delete_then_get:
  assumes "fst (delete_book w book_id) = Inr True"
  shows "get_book (snd (delete_book w book_id)) book_id = Inr None"
proof (cases "session_get w book_id")
  case (Inl e)
  with assms show ?thesis by (simp add: delete_book_def)
next
  case (Inr found)
  show ?thesis
  proof (cases found)
    case None
    with Inr assms show ?thesis by (simp add: delete_book_def)
  next
    case (Some db_book)
    with Inr have "in_int64 book_id" "Book.id_pk db_book = Some book_id"
      by (simp_all add: session_get_found)
    with Inr Some show ?thesis
      by (simp add: delete_book_def get_book_def session_get_def find_None_iff)
  qed
qed

text \<open>
  Claim C6 at a concrete input: deleting key 2 from a table with keys 1 and 2.
\<close>

theorem delete_then_get_witness:
  "fst (delete_book two_books 2) = Inr True
   \<and> get_book (snd (delete_book two_books 2)) 2 = Inr None"
proof -
  have h: "fst (delete_book two_books 2) = Inr True"
    by (simp add: delete_book_def session_get_def in_int64_def two_books_def dune_row_def
          messiah_row_def)
  from delete_then_get [OF h] h show ?thesis
    by simp
qed

section \<open>update_book on an existing row\<close>

lemma setattr_loaded:
  "f \<noteq> Null \<Longrightarrow> setattr (Some x) f = Some (case f of Value v \<Rightarrow> v | _ \<Rightarrow> x)"
  by (cases f) auto

lemma setattr_nullable:
  "setattr c f = (case f of Unset \<Rightarrow> c | Null \<Rightarrow> None | Value v \<Rightarrow> Some v)"
  by (cases f) auto

lemma new_text_refused_setattr:
  "new_text_refused old (setattr old f) \<longleftrightarrow> (\<exists>t. f = Value t \<and> Some t \<noteq> old \<and> \<not> encodable t)"
  by (cases f) (auto simp: new_text_refused_def split: option.splits)

lemma new_year_refused_setattr:
  "new_year_refused x (setattr (Some x) f) \<longleftrightarrow> (\<exists>y. f = Value y \<and> y \<noteq> x \<and> \<not> in_int64 y)"
  by (cases f) (auto simp: new_year_refused_def)

lemma bind_update_payload:
  "bind_update r ((setattr_loop (load_instance r) u)\<lparr>Book_instance.updated_at := t\<rparr>) = None
   \<longleftrightarrow> \<not> unbindable r u"
  by (simp add: bind_update_def setattr_loop_def load_instance_def new_text_refused_setattr
        new_year_refused_setattr)


lemma flush_row_key: "flush_row loaded obj = Inr row \<Longrightarrow> Book.id_pk row = Book_instance.id_pk obj"
  by (auto simp: flush_row_def split: option.splits if_splits)

lemma flush_row_refused:
  assumes "null_in_required r u"
  shows "flush_row r ((setattr_loop (load_instance r) u)\<lparr>Book_instance.updated_at := t\<rparr>) =
    Inl IntegrityError"
  using assms by (auto simp: flush_row_def setattr_loop_def split: option.splits)

lemma price_kept_or_number:
  assumes "BookUpdate.price u \<noteq> Null" and "\<not> (BookUpdate.price u = Value NaN \<and> Book.price r \<noteq> NaN)"
  shows "\<not> ((case BookUpdate.price u of Value v \<Rightarrow> v | _ \<Rightarrow> Book.price r) = NaN \<and> Book.price r \<noteq> NaN)"
  using assms by (cases "BookUpdate.price u") auto

lemma flush_row_accepted:
  assumes "\<not> null_in_required r u"
  shows "flush_row r ((setattr_loop (load_instance r) u)\<lparr>Book_instance.updated_at := t\<rparr>) =
    Inr \<lparr>Book.title = (case BookUpdate.title u of Value v \<Rightarrow> v | _ \<Rightarrow> Book.title r),
         Book.author = (case BookUpdate.author u of Value v \<Rightarrow> v | _ \<Rightarrow> Book.author r),
         Book.year = (case BookUpdate.year u of Value v \<Rightarrow> v | _ \<Rightarrow> Book.year r),
         Book.price = (case BookUpdate.price u of Value v \<Rightarrow> v | _ \<Rightarrow> Book.price r),
         Book.in_stock = (case BookUpdate.in_stock u of Value v \<Rightarrow> v | _ \<Rightarrow> Book.in_stock r),
         Book.description =
           (case BookUpdate.description u of Unset \<Rightarrow> Book.description r | Null \<Rightarrow> None
            | Value v \<Rightarrow> Some v),
         Book.created_at = Book.created_at r,
         Book.updated_at = t,
         Book.id_pk = Book.id_pk r\<rparr>"
proof -
  from assms have n: "BookUpdate.title u \<noteq> Null" "BookUpdate.author u \<noteq> Null"
    "BookUpdate.year u \<noteq> Null" "BookUpdate.price u \<noteq> Null" "BookUpdate.in_stock u \<noteq> Null"
    and p: "\<not> (BookUpdate.price u = Value NaN \<and> Book.price r \<noteq> NaN)"
    by simp_all
  from n price_kept_or_number [OF n(4) p] show ?thesis
    by (simp add: flush_row_def setattr_loop_def load_instance_def setattr_loaded)
       (simp add: setattr_nullable)
qed

lemma update_book_found:
  assumes "session_get w k = Inr (Some r)"
  shows "update_book w k u =
    (case bind_update r ((setattr_loop (load_instance r) u)
            \<lparr>Book_instance.updated_at := wall_clock w (clock_reads w)\<rparr>) of
       Some e \<Rightarrow> (Inl e, w\<lparr>clock_reads := Suc (clock_reads w)\<rparr>)
     | None \<Rightarrow>
        (case flush_row r ((setattr_loop (load_instance r) u)
            \<lparr>Book_instance.updated_at := wall_clock w (clock_reads w)\<rparr>) of
           Inl e \<Rightarrow> (Inl e, w\<lparr>clock_reads := Suc (clock_reads w)\<rparr>)
         | Inr row \<Rightarrow>
             (Inr (Some row),
              w\<lparr>clock_reads := Suc (clock_reads w),
                book_table := map (\<lambda>x. if Book.id_pk x = Some k then row else x) (book_table w)\<rparr>)))"
proof (cases "flush_row r ((setattr_loop (load_instance r) u)
            \<lparr>Book_instance.updated_at := wall_clock w (clock_reads w)\<rparr>)")
  case (Inl e)
  with assms show ?thesis
    by (simp add: update_book_def update_timestamp_def utcnow_def commit_update_def
          split: option.splits)
next
  case (Inr row)
  from assms have k: "in_int64 k" "Book.id_pk r = Some k"
    and f: "find (\<lambda>x. Book.id_pk x = Some k) (book_table w) = Some r"
    by (simp_all add: session_get_found) (simp add: session_get_def split: if_splits)
  from flush_row_key [OF Inr] k have "Book.id_pk row = Some k"
    by (simp add: setattr_loop_def load_instance_def)
  with f have "find (\<lambda>x. Book.id_pk x = Some k)
      (map (\<lambda>x. if Book.id_pk x = Some k then row else x) (book_table w)) = Some row"
    by (intro find_after_rewrite) auto
  with assms Inr k(1) show ?thesis
    by (simp add: update_book_def update_timestamp_def utcnow_def commit_update_def refresh_def
          session_get_def split: option.splits)
qed


lemma update_book_refused:
  assumes "session_get w k = Inr (Some r)" and "\<not> unbindable r u" and "null_in_required r u"
  shows "update_book w k u = (Inl IntegrityError, w\<lparr>clock_reads := Suc (clock_reads w)\<rparr>)"
proof -
  have "bind_update r ((setattr_loop (load_instance r) u)
            \<lparr>Book_instance.updated_at := wall_clock w (clock_reads w)\<rparr>) = None"
    using assms(2)
      bind_update_payload [where r = r and u = u and t = "wall_clock w (clock_reads w)"]
    by blast
  then show ?thesis
    by (simp add: update_book_found [OF assms(1)] flush_row_refused [OF assms(3)])
qed

lemma update_book_accepted:
  assumes "session_get w k = Inr (Some r)" and "\<not> unbindable r u" and "\<not> null_in_required r u"
  shows "\<exists>row. update_book w k u =
      (Inr (Some row),
       w\<lparr>clock_reads := Suc (clock_reads w),
         book_table := map (\<lambda>x. if Book.id_pk x = Some k then row else x) (book_table w)\<rparr>)
    \<and> session_get (snd (update_book w k u)) k = Inr (Some row)
    \<and> Book.title row = (case BookUpdate.title u of Value v \<Rightarrow> v | _ \<Rightarrow> Book.title r)
    \<and> Book.author row = (case BookUpdate.author u of Value v \<Rightarrow> v | _ \<Rightarrow> Book.author r)
    \<and> Book.year row = (case BookUpdate.year u of Value v \<Rightarrow> v | _ \<Rightarrow> Book.year r)
    \<and> Book.price row = (case BookUpdate.price u of Value v \<Rightarrow> v | _ \<Rightarrow> Book.price r)
    \<and> Book.in_stock row = (case BookUpdate.in_stock u of Value v \<Rightarrow> v | _ \<Rightarrow> Book.in_stock r)
    \<and> Book.description row =
          (case BookUpdate.description u of Unset \<Rightarrow> Book.description r | Null \<Rightarrow> None
           | Value v \<Rightarrow> Some v)
    \<and> Book.created_at row = Book.created_at r
    \<and> Book.updated_at row = wall_clock w (clock_reads w)
    \<and> Book.id_pk row = Book.id_pk r"
proof -
  from assms(1) have k: "in_int64 k" "Book.id_pk r = Some k"
    and f: "find (\<lambda>x. Book.id_pk x = Some k) (book_table w) = Some r"
    by (simp_all add: session_get_found) (simp add: session_get_def split: if_splits)
  have b: "bind_update r ((setattr_loop (load_instance r) u)
            \<lparr>Book_instance.updated_at := wall_clock w (clock_reads w)\<rparr>) = None"
    using assms(2)
      bind_update_payload [where r = r and u = u and t = "wall_clock w (clock_reads w)"]
    by blast
  note fl = flush_row_accepted [OF assms(3), where t = "wall_clock w (clock_reads w)"]
  have "find (\<lambda>x. Book.id_pk x = Some k)
      (map (\<lambda>x. if Book.id_pk x = Some k then row else x) (book_table w)) = Some row"
    if "Book.id_pk row = Some k" for row
    using f that by (intro find_after_rewrite) auto
  then show ?thesis
    using k by (simp add: update_book_found [OF assms(1)] b fl session_get_def)
qed

section \<open>Partial updates\<close>

text \<open>
  Claim C2, as the code has it. For every stored record, \<open>update_book\<close> with the
  empty payload returns the record, and stores it, with \<open>updated_at\<close> set to the
  reading of the clock at the call and with \<open>id\<close>, \<open>title\<close>, \<open>author\<close>,
  \<open>year\<close>, \<open>price\<close>, \<open>in_stock\<close>, \<open>description\<close> and \<open>created_at\<close> as
  they were. \<open>updated_at\<close> changes exactly when that reading differs from the stored
  value.
\<close>

theorem update_book_empty_payload:
  assumes "get_book w book_id = Inr (Some r)"
  shows "\<exists>r' w'. update_book w book_id empty_payload = (Inr (Some r'), w')
     \<and> get_book w' book_id = Inr (Some r')
     \<and> Book.updated_at r' = wall_clock w (clock_reads w)
     \<and> Book.id_pk r' = Book.id_pk r
     \<and> Book.title r' = Book.title r
     \<and> Book.author r' = Book.author r
     \<and> Book.year r' = Book.year r
     \<and> Book.price r' = Book.price r
     \<and> Book.in_stock r' = Book.in_stock r
     \<and> Book.description r' = Book.description r
     \<and> Book.created_at r' = Book.created_at r"
proof -
  from assms have g: "session_get w book_id = Inr (Some r)"
    by (simp add: get_book_def)
  from update_book_accepted [OF g, of empty_payload]
  obtain row where "update_book w book_id empty_payload =
      (Inr (Some row), snd (update_book w book_id empty_payload))"
    and "session_get (snd (update_book w book_id empty_payload)) book_id = Inr (Some row)"
    and "Book.updated_at row = wall_clock w (clock_reads w)"
    and "Book.id_pk row = Book.id_pk r" "Book.title row = Book.title r"
      "Book.author row = Book.author r" "Book.year row = Book.year r"
      "Book.price row = Book.price r" "Book.in_stock row = Book.in_stock r"
      "Book.description row = Book.description r" "Book.created_at row = Book.created_at r"
    by (auto simp: empty_payload_def)
  then show ?thesis
    unfolding get_book_def by blast
qed

text \<open>
  Claim C2 as amended, at a concrete input: key 2 of the two-row table, at clock reading 4.
\<close>

theorem update_book_empty_payload_witness:
  "get_book two_books 2 = Inr (Some messiah_row)
   \<and> (\<exists>r' w'. update_book two_books 2 empty_payload = (Inr (Some r'), w')
        \<and> get_book w' 2 = Inr (Some r')
        \<and> Book.updated_at r' = 4
        \<and> Book.id_pk r' = Some 2
        \<and> Book.title r' = Str ''Dune Messiah''
        \<and> Book.author r' = Str ''Herbert''
        \<and> Book.year r' = 1969
        \<and> Book.price r' = Num 10
        \<and> Book.in_stock r' = False
        \<and> Book.description r' = Some (Str ''Sequel'')
        \<and> Book.created_at r' = 2)"
proof -
  have h: "get_book two_books 2 = Inr (Some messiah_row)"
    by (simp add: get_book_def session_get_def in_int64_def two_books_def dune_row_def
          messiah_row_def)
  from update_book_empty_payload [OF h] h show ?thesis
    by (simp add: two_books_def ticking_def messiah_row_def)
qed

text \<open>
  Claim C2 as stated fails: the record created under a clock that stands still has
  \<open>updated_at = 7\<close>, and \<open>update_book\<close> with the empty payload, reading 7 again,
  returns a record equal to the stored one in every field, \<open>updated_at\<close> included.
\<close>

theorem update_book_empty_payload_counterexample:
  "get_book still_store 1 = Inr (Some (dune_row 1 7 7))
   \<and> fst (update_book still_store 1 empty_payload) = Inr (Some (dune_row 1 7 7))"
  by (simp add: eval_defs)

text \<open>
  Claim C4, as the code has it. For every stored record, \<open>update_book\<close> with a payload
  in which only \<open>price\<close> is set, to a number \<open>p\<close>, returns the record, and stores
  it, with \<open>price = p\<close>, with \<open>updated_at\<close> set to the reading of the clock at the
  call, and with \<open>title\<close>, \<open>author\<close>, \<open>year\<close>, \<open>in_stock\<close> and
  \<open>description\<close> (and \<open>id\<close>, \<open>created_at\<close>) as they were. When the payload sets
  only \<open>price\<close> and sets it to \<^verbatim>\<open>None\<close>, the commit is refused with a storage fault
  and the table stays as it was.
\<close>

theorem update_book_price_only:
  assumes "get_book w book_id = Inr (Some r)"
  shows "(\<exists>r' w'. update_book w book_id (price_only (Value (Num p))) = (Inr (Some r'), w')
       \<and> get_book w' book_id = Inr (Some r')
       \<and> Book.price r' = Num p
       \<and> Book.updated_at r' = wall_clock w (clock_reads w)
       \<and> Book.title r' = Book.title r
       \<and> Book.author r' = Book.author r
       \<and> Book.year r' = Book.year r
       \<and> Book.in_stock r' = Book.in_stock r
       \<and> Book.description r' = Book.description r
       \<and> Book.id_pk r' = Book.id_pk r
       \<and> Book.created_at r' = Book.created_at r)
     \<and> fst (update_book w book_id (price_only Null)) = Inl IntegrityError
     \<and> book_table (snd (update_book w book_id (price_only Null))) = book_table w"
proof -
  from assms have g: "session_get w book_id = Inr (Some r)"
    by (simp add: get_book_def)
  from update_book_accepted [OF g, of "price_only (Value (Num p))"]
  obtain row where "update_book w book_id (price_only (Value (Num p))) =
      (Inr (Some row), snd (update_book w book_id (price_only (Value (Num p)))))"
    and "session_get (snd (update_book w book_id (price_only (Value (Num p))))) book_id =
      Inr (Some row)"
    and "Book.price row = Num p" "Book.updated_at row = wall_clock w (clock_reads w)"
    and "Book.title row = Book.title r" "Book.author row = Book.author r"
      "Book.year row = Book.year r" "Book.in_stock row = Book.in_stock r"
      "Book.description row = Book.description r" "Book.id_pk row = Book.id_pk r"
      "Book.created_at row = Book.created_at r"
    by (auto simp: price_only_def empty_payload_def)
  then have "\<exists>r' w'. update_book w book_id (price_only (Value (Num p))) = (Inr (Some r'), w')
       \<and> get_book w' book_id = Inr (Some r')
       \<and> Book.price r' = Num p
       \<and> Book.updated_at r' = wall_clock w (clock_reads w)
       \<and> Book.title r' = Book.title r
       \<and> Book.author r' = Book.author r
       \<and> Book.year r' = Book.year r
       \<and> Book.in_stock r' = Book.in_stock r
       \<and> Book.description r' = Book.description r
       \<and> Book.id_pk r' = Book.id_pk r
       \<and> Book.created_at r' = Book.created_at r"
    unfolding get_book_def by blast
  moreover have "update_book w book_id (price_only Null) =
      (Inl IntegrityError, w\<lparr>clock_reads := Suc (clock_reads w)\<rparr>)"
    by (rule update_book_refused [OF g]) (simp_all add: price_only_def empty_payload_def)
  ultimately show ?thesis
    by simp
qed

text \<open>
  Claim C4 as amended, at a concrete input: key 2 of the two-row table, price 9, and
  the same key with an explicit null price.
\<close>

theorem update_book_price_only_witness:
  "get_book two_books 2 = Inr (Some messiah_row)
   \<and> (\<exists>r' w'. update_book two_books 2 (price_only (Value (Num 9))) = (Inr (Some r'), w')
        \<and> get_book w' 2 = Inr (Some r')
        \<and> Book.price r' = Num 9
        \<and> Book.updated_at r' = 4
        \<and> Book.title r' = Str ''Dune Messiah''
        \<and> Book.author r' = Str ''Herbert''
        \<and> Book.year r' = 1969
        \<and> Book.in_stock r' = False
        \<and> Book.description r' = Some (Str ''Sequel'')
        \<and> Book.id_pk r' = Some 2
        \<and> Book.created_at r' = 2)
   \<and> fst (update_book two_books 2 (price_only Null)) = Inl IntegrityError
   \<and> book_table (snd (update_book two_books 2 (price_only Null))) = book_table two_books"
proof -
  have h: "get_book two_books 2 = Inr (Some messiah_row)"
    by (simp add: get_book_def session_get_def in_int64_def two_books_def dune_row_def
          messiah_row_def)
  from update_book_price_only [OF h, of 9] h show ?thesis
    by (simp add: two_books_def ticking_def messiah_row_def)
qed

text \<open>
  Claim C4 as stated fails: the payload that sets only \<open>price\<close>, to \<^verbatim>\<open>None\<close>,
  on the stored record of key 1 ends in a storage fault; the stored record keeps its
  price and its \<open>updated_at\<close>.
\<close>

theorem update_book_price_only_counterexample:
  "get_book two_books 1 = Inr (Some (dune_row 1 0 1))
   \<and> fst (update_book two_books 1 (price_only Null)) = Inl IntegrityError
   \<and> get_book (snd (update_book two_books 1 (price_only Null))) 1 = Inr (Some (dune_row 1 0 1))"
  by (simp add: eval_defs)




section \<open>Pages\<close>




section \<open>Histories\<close>














end
